theory Spec2Isabelle
  imports Complex_Main
begin

section \<open>Configuration\<close>

text \<open>
  The constants that \<^verbatim>\<open>hysteria_checker.py\<close> imports from \<^verbatim>\<open>lib.config\<close> or reads
  from the process environment. Their values are not fixed by the checker, so they are
  the fields of one record that every function takes. A Python float is the real
  number it stands for; the values are finite.
\<close>

record config =
  STRONG_STYLE_TEST :: bool
  REQUIRE_HTTPS :: bool
  STRICT_MODE :: bool
  STRICT_MODE_REQUIRE_ALL :: bool
  STRONG_ATTEMPTS :: int
  STRONG_MAX_RESPONSE_TIME :: real
  MAX_RESPONSE_TIME :: real
  MIN_SUCCESSFUL_REQUESTS :: int
  MIN_SUCCESSFUL_URLS :: int
  REQUESTS_PER_URL :: int
  REQUEST_DELAY :: real
  STABILITY_CHECKS :: int
  STABILITY_CHECK_DELAY :: real
  TEST_URLS :: "string list"
  TEST_URLS_HTTPS :: "string list"
  CLIENT_TEST_HTTPS :: string
  MAX_LATENCY_MS :: real
  HYSTERIA_STARTUP_WAIT :: real
  HYSTERIA_STARTUP_POLL :: real
  HYSTERIA_PORT_WAIT :: real

section \<open>Metrics, probes and the observable world\<close>

text \<open>The \<^verbatim>\<open>metrics\<close> dictionary of \<^verbatim>\<open>check_hysteria_key\<close>, one field per key.\<close>

record metrics =
  response_times :: "real list"
  successful_urls :: int
  failed_urls :: int
  total_requests :: int
  successful_requests :: int

definition metrics0 :: metrics where
  "metrics0 = \<lparr>response_times = [], successful_urls = 0, failed_urls = 0,
     total_requests = 0, successful_requests = 0\<rparr>"

text \<open>
  What one call \<^verbatim>\<open>make_request(url, proxies, timeout)\<close> hands back, as far as the
  checker looks at it: whether \<^verbatim>\<open>response\<close> and \<^verbatim>\<open>error\<close> are truthy, the elapsed
  time, and what \<^verbatim>\<open>check_response_valid\<close> answers for that response with the
  arguments the caller passes.
\<close>

record probe =
  response :: bool
  elapsed_time :: real
  error :: bool
  valid :: bool

text \<open>Everything a task does to the outside, in the order it does it.\<close>

datatype event =
    TakePort "nat option"
  | Mkstemp string
  | WriteConfig string
  | RunHysteria string
  | Poll
  | Sleep real
  | WaitForPort nat
  | MakeRequest string
  | Download string
  | KillHysteria
  | Unlink string
  | ReturnPort nat

text \<open>
  The state shared by the tasks: the free ports of the pool, the transient
  configuration files that exist, and the log of events.
\<close>

record world =
  free_ports :: "nat list"
  files :: "string set"
  trace :: "event list"

definition emit :: "event \<Rightarrow> world \<Rightarrow> world" where
  "emit e w = w\<lparr>trace := trace w @ [e]\<rparr>"

datatype popen_result = Started | FileNotFoundError | OtherOSError

datatype exn = OSError | UnboundLocalError | ValueError

datatype download =
    RequestException
  | Response int "(nat \<times> real) list" real

text \<open>
  The floating-point arithmetic of the Python runtime, as far as the code uses it:
  \<open>float_add a b\<close> is \<^verbatim>\<open>a + b\<close>, \<open>float_mul a b\<close> is \<^verbatim>\<open>a * b\<close>, \<open>float_div a b\<close> is
  \<^verbatim>\<open>a / b\<close>, \<open>float_sum xs\<close> is \<^verbatim>\<open>sum(xs)\<close> and \<open>round2 x\<close> is \<^verbatim>\<open>round(x, 2)\<close>, each
  on floats and each with the rounding the runtime does. The operations are
  parameters: nothing is assumed about how they round.
\<close>

record arith =
  float_add :: "real \<Rightarrow> real \<Rightarrow> real"
  float_mul :: "real \<Rightarrow> real \<Rightarrow> real"
  float_div :: "real \<Rightarrow> real \<Rightarrow> real"
  float_sum :: "real list \<Rightarrow> real"
  round2 :: "real \<Rightarrow> real"

text \<open>
  The answers of the outside to one task. \<open>parse_proxy_url\<close> stands for
  \<^verbatim>\<open>lib.parsing.parse_proxy_url\<close> (a dictionary as an association list, \<open>None\<close> for
  Python's \<^verbatim>\<open>None\<close>); \<open>mkstemp\<close> is the path \<^verbatim>\<open>tempfile.mkstemp\<close> returns;
  \<open>write_ok\<close> says whether writing the configuration raises no exception;
  \<open>popen\<close> is what \<^verbatim>\<open>subprocess.Popen\<close> does; \<open>poll_exited k\<close> says whether
  the \<open>k\<close>-th \<^verbatim>\<open>proc.poll()\<close> is not \<^verbatim>\<open>None\<close>; \<open>port_ready\<close> is the result of
  \<^verbatim>\<open>_wait_for_port\<close>; \<open>make_request k\<close> is the result of the \<open>k\<close>-th call of
  \<^verbatim>\<open>make_request\<close>; \<open>deadline_reached k\<close> says whether the clock has reached the
  deadline at the \<open>k\<close>-th test of the speed test's latency loop; \<open>download_result\<close>
  is what the streamed download does; \<open>runtime\<close> is the arithmetic the task
  computes with.
\<close>

record env =
  parse_proxy_url :: "string \<Rightarrow> (string \<times> string) list option"
  mkstemp :: string
  write_ok :: bool
  popen :: popen_result
  poll_exited :: "nat \<Rightarrow> bool"
  port_ready :: bool
  make_request :: "nat \<Rightarrow> probe"
  deadline_reached :: "nat \<Rightarrow> bool"
  download_result :: download
  runtime :: arith

section \<open>The port pool\<close>

text \<open>
  Modelled from the spec: \<^verbatim>\<open>lib/port_pool.py\<close> (\<^verbatim>\<open>take_port\<close>, \<^verbatim>\<open>return_port\<close>) is
  not among the sources. Section 4.1 of the specification: \<^verbatim>\<open>take\<close> removes and
  returns one free port, or returns \<^verbatim>\<open>None\<close> at once when the pool is exhausted;
  \<^verbatim>\<open>return\<close> adds the port to the free set again and does nothing when the port is
  already free.
\<close>

definition take_port :: "world \<Rightarrow> nat option \<times> world" where
  "take_port w =
     (case free_ports w of
        [] \<Rightarrow> (None, emit (TakePort None) w)
      | p # ps \<Rightarrow> (Some p, emit (TakePort (Some p)) (w\<lparr>free_ports := ps\<rparr>)))"

definition return_port :: "nat \<Rightarrow> world \<Rightarrow> world" where
  "return_port p w =
     emit (ReturnPort p)
       (if p \<in> set (free_ports w) then w else w\<lparr>free_ports := free_ports w @ [p]\<rparr>)"

section \<open>Files and the client process\<close>

text \<open>
  \<^verbatim>\<open>tempfile.mkstemp\<close> creates the file; writing \<^verbatim>\<open>build_hysteria_config(link, port)\<close>
  into it succeeds or raises. Only the existence of the file is modelled, not its
  text.
\<close>

definition mkstemp_file :: "env \<Rightarrow> world \<Rightarrow> string \<times> world" where
  "mkstemp_file e w =
     (mkstemp e, emit (Mkstemp (mkstemp e)) (w\<lparr>files := insert (mkstemp e) (files w)\<rparr>))"

definition write_config :: "env \<Rightarrow> string \<Rightarrow> world \<Rightarrow> bool \<times> world" where
  "write_config e config_path w = (write_ok e, emit (WriteConfig config_path) w)"

text \<open>\<^verbatim>\<open>os.unlink\<close> inside \<^verbatim>\<open>try ... except FileNotFoundError: pass\<close>.\<close>

definition unlink :: "string \<Rightarrow> world \<Rightarrow> world" where
  "unlink config_path w = emit (Unlink config_path) (w\<lparr>files := files w - {config_path}\<rparr>)"

text \<open>
  \<^verbatim>\<open>run_hysteria\<close>: \<^verbatim>\<open>Popen\<close> gives a process, or raises \<^verbatim>\<open>FileNotFoundError\<close>,
  which \<^verbatim>\<open>run_hysteria\<close> turns into \<^verbatim>\<open>None\<close>, or raises another error, which
  it lets through.
\<close>

definition run_hysteria :: "env \<Rightarrow> string \<Rightarrow> world \<Rightarrow> popen_result \<times> world" where
  "run_hysteria e config_path w = (popen e, emit (RunHysteria config_path) w)"

text \<open>
  \<^verbatim>\<open>kill_hysteria\<close> (terminate, wait five seconds, kill) acts on the client
  process only; the model logs its completion.
\<close>

definition kill_hysteria :: "world \<Rightarrow> world" where
  "kill_hysteria w = emit KillHysteria w"

definition wait_for_port :: "env \<Rightarrow> nat \<Rightarrow> world \<Rightarrow> bool \<times> world" where
  "wait_for_port e port w = (port_ready e, emit (WaitForPort port) w)"

text \<open>
  The startup wait of both tasks:
  \<^verbatim>\<open>while waited < HYSTERIA_STARTUP_WAIT:
      if proc.poll() is not None: return ...
      time.sleep(HYSTERIA_STARTUP_POLL); waited += HYSTERIA_STARTUP_POLL\<close>
  The addition is the runtime's addition of floats, and \<^verbatim>\<open>time.sleep\<close> raises
  \<^verbatim>\<open>ValueError\<close> for a negative interval. The result is \<open>Inr True\<close> when a poll saw
  the process gone (the early return is taken), \<open>Inr False\<close> when the loop ran to
  its end, \<open>Inl ValueError\<close> when the sleep raised. The loop need not end (an
  interval of zero, or one too small to change \<^verbatim>\<open>waited\<close>), so the function is
  partial: \<open>None\<close> is a loop that never ends.
\<close>

partial_function (option) startup_wait ::
  "config \<Rightarrow> env \<Rightarrow> nat \<Rightarrow> real \<Rightarrow> world \<Rightarrow> ((exn + bool) \<times> world) option" where
  "startup_wait cfg e k waited w =
     (if waited < HYSTERIA_STARTUP_WAIT cfg then
        (if poll_exited e k then Some (Inr True, emit Poll w)
         else if HYSTERIA_STARTUP_POLL cfg < 0 then Some (Inl ValueError, emit Poll w)
         else startup_wait cfg e (Suc k)
                (float_add (runtime e) waited (HYSTERIA_STARTUP_POLL cfg))
                (emit (Sleep (HYSTERIA_STARTUP_POLL cfg)) (emit Poll w)))
      else Some (Inr False, w))"

declare startup_wait.simps [code]


section \<open>The strict protocol\<close>

definition max_ok_time :: "config \<Rightarrow> real" where
  "max_ok_time cfg =
     (if STRONG_MAX_RESPONSE_TIME cfg > 0 then STRONG_MAX_RESPONSE_TIME cfg
      else MAX_RESPONSE_TIME cfg)"

definition attempts_total :: "config \<Rightarrow> int" where
  "attempts_total cfg = max 2 (STRONG_ATTEMPTS cfg)"

text \<open>
  The loop \<^verbatim>\<open>for attempt in range(attempts_total)\<close>. The state is the metrics, the
  success count, the number of \<^verbatim>\<open>make_request\<close> calls made so far and the world.
  The connect and read timeouts only go into \<^verbatim>\<open>make_request\<close>, whose answers are
  inputs, so they are left out.
\<close>

fun strong_loop ::
  "config \<Rightarrow> env \<Rightarrow> nat list \<Rightarrow> metrics \<Rightarrow> int \<Rightarrow> nat \<Rightarrow> world
     \<Rightarrow> metrics \<times> int \<times> nat \<times> world" where
  "strong_loop cfg e [] m success_count n w = (m, success_count, n, w)"
| "strong_loop cfg e (attempt # rest) m success_count n w =
     (let w1 = (if attempt > 0 then emit (Sleep 0.5) w else w);
          r = make_request e n;
          w2 = emit (MakeRequest (CLIENT_TEST_HTTPS cfg)) w1;
          m1 = m\<lparr>total_requests := total_requests m + 1\<rparr>
      in if response r \<and> \<not> error r \<and> valid r then
           (if max_ok_time cfg > 0 \<and> elapsed_time r > max_ok_time cfg
            then strong_loop cfg e rest m1 success_count (Suc n) w2
            else strong_loop cfg e rest
                   (m1\<lparr>response_times := response_times m1 @ [elapsed_time r]\<rparr>)
                   (success_count + 1) (Suc n) w2)
         else strong_loop cfg e rest m1 success_count (Suc n) w2)"

definition strong_style_test ::
  "config \<Rightarrow> env \<Rightarrow> string \<Rightarrow> world \<Rightarrow> (exn + string \<times> bool \<times> metrics) \<times> world" where
  "strong_style_test cfg e link w =
     (case strong_loop cfg e [0 ..< nat (attempts_total cfg)] metrics0 0 0 w of
        (m, success_count, n, w1) \<Rightarrow>
          if success_count \<ge> 2 then
            (Inr (link, True,
               m\<lparr>successful_requests := success_count, successful_urls := 1,
                   failed_urls := 0\<rparr>), w1)
          else (Inr (link, False, m), w1))"

section \<open>The stability protocol\<close>

definition all_urls :: "config \<Rightarrow> (string \<times> string) list" where
  "all_urls cfg =
     (let a = (if TEST_URLS cfg \<noteq> [] then map (\<lambda>url. (url, ''http'')) (TEST_URLS cfg) else [])
            @ (if TEST_URLS_HTTPS cfg \<noteq> []
               then map (\<lambda>url. (url, ''https'')) (TEST_URLS_HTTPS cfg) else [])
      in if a = [] then [(CLIENT_TEST_HTTPS cfg, ''https'')] else a)"

text \<open>
  The loop \<^verbatim>\<open>for request_num in range(REQUESTS_PER_URL)\<close>. The loops of the
  stability protocol sleep for intervals of the configuration, so each can end in
  the \<^verbatim>\<open>ValueError\<close> of \<^verbatim>\<open>time.sleep\<close>.
\<close>

fun requests_loop ::
  "config \<Rightarrow> env \<Rightarrow> string \<Rightarrow> nat list \<Rightarrow> metrics \<Rightarrow> int \<Rightarrow> nat \<Rightarrow> world
     \<Rightarrow> (exn + metrics \<times> int \<times> nat) \<times> world" where
  "requests_loop cfg e url [] m request_ok n w = (Inr (m, request_ok, n), w)"
| "requests_loop cfg e url (request_num # rest) m request_ok n w =
     (if request_num > 0 \<and> REQUEST_DELAY cfg < 0 then (Inl ValueError, w)
      else
       (let w1 = (if request_num > 0 then emit (Sleep (REQUEST_DELAY cfg)) w else w);
            r = make_request e n;
            w2 = emit (MakeRequest url) w1;
            m1 = m\<lparr>total_requests := total_requests m + 1\<rparr>
        in if response r \<and> \<not> error r \<and> valid r then
             (if MAX_RESPONSE_TIME cfg > 0 \<and> elapsed_time r > MAX_RESPONSE_TIME cfg
              then requests_loop cfg e url rest m1 request_ok (Suc n) w2
              else requests_loop cfg e url rest
                     (m1\<lparr>response_times := response_times m1 @ [elapsed_time r],
                          successful_requests := successful_requests m1 + 1\<rparr>)
                     (request_ok + 1) (Suc n) w2)
           else requests_loop cfg e url rest m1 request_ok (Suc n) w2))"

text \<open>The loop \<^verbatim>\<open>for url, _ in all_urls\<close>.\<close>

fun urls_loop ::
  "config \<Rightarrow> env \<Rightarrow> (string \<times> string) list \<Rightarrow> metrics \<Rightarrow> int \<Rightarrow> nat \<Rightarrow> world
     \<Rightarrow> (exn + metrics \<times> int \<times> nat) \<times> world" where
  "urls_loop cfg e [] m successful_urls_count n w = (Inr (m, successful_urls_count, n), w)"
| "urls_loop cfg e ((url, tag) # rest) m successful_urls_count n w =
     (case requests_loop cfg e url [0 ..< nat (REQUESTS_PER_URL cfg)] m 0 n w of
        (Inl x, w1) \<Rightarrow> (Inl x, w1)
      | (Inr (m1, request_ok, n1), w1) \<Rightarrow>
          urls_loop cfg e rest m1
            (if request_ok \<ge> MIN_SUCCESSFUL_REQUESTS cfg
             then successful_urls_count + 1 else successful_urls_count) n1 w1)"

definition round_criterion :: "config \<Rightarrow> int \<Rightarrow> bool" where
  "round_criterion cfg successful_urls_count =
     (if STRICT_MODE cfg \<and> STRICT_MODE_REQUIRE_ALL cfg
      then successful_urls_count = int (length (all_urls cfg))
      else successful_urls_count \<ge> MIN_SUCCESSFUL_URLS cfg)"

text \<open>
  The loop \<^verbatim>\<open>for stability_check in range(STABILITY_CHECKS)\<close>. The variable
  \<^verbatim>\<open>successful_urls_count\<close> is assigned inside the loop only, so it is \<open>None\<close> until
  the first round has run.
\<close>

fun rounds_loop ::
  "config \<Rightarrow> env \<Rightarrow> nat list \<Rightarrow> metrics \<Rightarrow> bool list \<Rightarrow> int option \<Rightarrow> nat \<Rightarrow> world
     \<Rightarrow> (exn + metrics \<times> bool list \<times> int option \<times> nat) \<times> world" where
  "rounds_loop cfg e [] m stability_results suc n w = (Inr (m, stability_results, suc, n), w)"
| "rounds_loop cfg e (stability_check # rest) m stability_results suc n w =
     (if stability_check > 0 \<and> STABILITY_CHECK_DELAY cfg < 0 then (Inl ValueError, w)
      else
       (let w0 = (if stability_check > 0 then emit (Sleep (STABILITY_CHECK_DELAY cfg)) w else w)
        in case urls_loop cfg e (all_urls cfg) m 0 n w0 of
          (Inl x, w1) \<Rightarrow> (Inl x, w1)
        | (Inr (m1, successful_urls_count, n1), w1) \<Rightarrow>
            (let passed = round_criterion cfg successful_urls_count;
                 passed' = (if REQUIRE_HTTPS cfg
                               \<and> \<not> list_ex (\<lambda>(url, t). t = ''https'') (all_urls cfg)
                            then False else passed)
             in rounds_loop cfg e rest m1 (stability_results @ [passed'])
                  (Some successful_urls_count) n1 w1)))"

definition stability_test ::
  "config \<Rightarrow> env \<Rightarrow> string \<Rightarrow> world \<Rightarrow> (exn + string \<times> bool \<times> metrics) \<times> world" where
  "stability_test cfg e link w =
     (case rounds_loop cfg e [0 ..< nat (STABILITY_CHECKS cfg)] metrics0 [] None 0 w of
        (Inl x, w1) \<Rightarrow> (Inl x, w1)
      | (Inr (m, stability_results, suc, n), w1) \<Rightarrow>
          if STABILITY_CHECKS cfg > 1 \<and> \<not> list_all (\<lambda>passed. passed) stability_results
          then (Inr (link, False, m), w1)
          else (case suc of
                  None \<Rightarrow> (Inl UnboundLocalError, w1)
                | Some successful_urls_count \<Rightarrow>
                    (let m1 = m\<lparr>successful_urls := successful_urls_count,
                               failed_urls := int (length (all_urls cfg)) - successful_urls_count\<rparr>;
                         is_available = round_criterion cfg successful_urls_count;
                         is_available' = (if REQUIRE_HTTPS cfg \<and> all_urls cfg = []
                                          then False else is_available)
                     in (Inr (link, is_available', m1), w1))))"

section \<open>check_hysteria_key\<close>

definition is_hysteria :: "env \<Rightarrow> string \<Rightarrow> bool" where
  "is_hysteria e link =
     (case parse_proxy_url e link of
        None \<Rightarrow> False
      | Some parsed \<Rightarrow>
          (if parsed = [] then False
           else (case map_of parsed ''protocol'' of
                   None \<Rightarrow> False
                 | Some p \<Rightarrow> p = ''hysteria'' \<or> p = ''hysteria2'')))"

text \<open>The \<^verbatim>\<open>finally\<close> block: kill the client, delete the file, return the port.\<close>

definition finally_block :: "nat \<Rightarrow> string \<Rightarrow> world \<Rightarrow> world" where
  "finally_block port config_path w = return_port port (unlink config_path (kill_hysteria w))"

text \<open>The body of the \<^verbatim>\<open>try\<close> statement of \<^verbatim>\<open>check_hysteria_key\<close>.\<close>

definition check_body ::
  "config \<Rightarrow> env \<Rightarrow> string \<Rightarrow> nat \<Rightarrow> world
     \<Rightarrow> ((exn + string \<times> bool \<times> metrics) \<times> world) option" where
  "check_body cfg e link port w =
     (case startup_wait cfg e 0 0 w of
        None \<Rightarrow> None
      | Some (Inl x, w1) \<Rightarrow> Some (Inl x, w1)
      | Some (Inr exited, w1) \<Rightarrow>
          if exited then Some (Inr (link, False, metrics0), return_port port w1)
          else (case wait_for_port e port w1 of
                  (ready, w2) \<Rightarrow>
                    if \<not> ready then Some (Inr (link, False, metrics0), return_port port w2)
                    else if STRONG_STYLE_TEST cfg then Some (strong_style_test cfg e link w2)
                    else Some (stability_test cfg e link w2)))"

definition check_hysteria_key ::
  "config \<Rightarrow> env \<Rightarrow> string \<Rightarrow> world
     \<Rightarrow> ((exn + string \<times> bool \<times> metrics) \<times> world) option" where
  "check_hysteria_key cfg e link w =
     (if is_hysteria e link then
        (case take_port w of
           (None, w1) \<Rightarrow> Some (Inr (link, False, metrics0), w1)
         | (Some port, w1) \<Rightarrow>
             (case mkstemp_file e w1 of
                (config_path, w2) \<Rightarrow>
                  (case write_config e config_path w2 of
                     (False, w3) \<Rightarrow> Some (Inr (link, False, metrics0), return_port port w3)
                   | (True, w3) \<Rightarrow>
                       (case run_hysteria e config_path w3 of
                          (OtherOSError, w4) \<Rightarrow> Some (Inl OSError, w4)
                        | (FileNotFoundError, w4) \<Rightarrow>
                            Some (Inr (link, False, metrics0),
                                  unlink config_path (return_port port w4))
                        | (Started, w4) \<Rightarrow>
                            (case check_body cfg e link port w4 of
                               None \<Rightarrow> None
                             | Some (res, w5) \<Rightarrow>
                                 Some (res, finally_block port config_path w5))))))
      else Some (Inr (link, False, metrics0), w))"

section \<open>The batch loop of hysteria_checker.main\<close>

text \<open>What \<^verbatim>\<open>future.result()\<close> does: it raises, or it returns the task's value.\<close>

datatype 'a future = Raised | Returned 'a

definition future_of :: "exn + 'a \<Rightarrow> 'a future" where
  "future_of r = (case r of Inl x \<Rightarrow> Raised | Inr v \<Rightarrow> Returned v)"

text \<open>
  \<^verbatim>\<open>(sum(metrics["response_times"]) / len(metrics["response_times"])) * 1000\<close>, in
  the arithmetic \<open>ar\<close> of the runtime, or \<^verbatim>\<open>0.0\<close> without samples.
\<close>

definition latency_ms_of :: "arith \<Rightarrow> metrics \<Rightarrow> real" where
  "latency_ms_of ar m =
     (if response_times m \<noteq> []
      then float_mul ar
             (float_div ar (float_sum ar (response_times m)) (real (length (response_times m))))
             1000
      else 0)"

record collected =
  available :: "(string \<times> real) list"
  available_links :: "string set"
  all_metrics :: "string \<rightharpoonup> metrics option"

definition collected0 :: collected where
  "collected0 = \<lparr>available = [], available_links = {}, all_metrics = Map.empty\<rparr>"

text \<open>
  The loop \<^verbatim>\<open>for future in as_completed(futures)\<close> of \<^verbatim>\<open>main\<close>: each element is
  the link the future was submitted with and what the future gives. An empty
  metrics dictionary is \<open>None\<close>.
\<close>

fun collect_results ::
  "arith \<Rightarrow> config \<Rightarrow> (string \<rightharpoonup> string) \<Rightarrow> (string \<times> (string \<times> bool \<times> metrics) future) list
     \<Rightarrow> collected \<Rightarrow> collected" where
  "collect_results ar cfg link_to_full [] c = c"
| "collect_results ar cfg link_to_full ((submitted, Raised) # rest) c =
     collect_results ar cfg link_to_full rest
       (c\<lparr>all_metrics := (all_metrics c)(submitted \<mapsto> None)\<rparr>)"
| "collect_results ar cfg link_to_full ((submitted, Returned (link, ok, m)) # rest) c =
     (let c1 = c\<lparr>all_metrics := (all_metrics c)(link \<mapsto> Some m)\<rparr>
      in if ok then
           (let full = (case link_to_full link of Some f \<Rightarrow> f | None \<Rightarrow> link);
                latency_ms = latency_ms_of ar m
            in if latency_ms \<le> MAX_LATENCY_MS cfg
               then collect_results ar cfg link_to_full rest
                      (c1\<lparr>available := available c1 @ [(full, latency_ms)],
                          available_links := insert link (available_links c1)\<rparr>)
               else collect_results ar cfg link_to_full rest c1)
         else collect_results ar cfg link_to_full rest c1)"

text \<open>
  The lines of the result file and of the top-100 file: \<open>None\<close> when
  \<^verbatim>\<open>available_sorted\<close> is empty and nothing is written.
\<close>

definition lines_out ::
  "arith \<Rightarrow> config \<Rightarrow> (string \<rightharpoonup> string) \<Rightarrow> (string \<times> (string \<times> bool \<times> metrics) future) list
     \<Rightarrow> string list" where
  "lines_out ar cfg link_to_full futures =
     map fst (sort_key snd (available (collect_results ar cfg link_to_full futures collected0)))"

definition output_file ::
  "arith \<Rightarrow> config \<Rightarrow> (string \<rightharpoonup> string) \<Rightarrow> (string \<times> (string \<times> bool \<times> metrics) future) list
     \<Rightarrow> string list option" where
  "output_file ar cfg link_to_full futures =
     (if lines_out ar cfg link_to_full futures = [] then None
      else Some (lines_out ar cfg link_to_full futures))"

definition top100_file ::
  "arith \<Rightarrow> config \<Rightarrow> (string \<rightharpoonup> string) \<Rightarrow> (string \<times> (string \<times> bool \<times> metrics) future) list
     \<Rightarrow> string list option" where
  "top100_file ar cfg link_to_full futures =
     (if lines_out ar cfg link_to_full futures = [] then None
      else Some (take 100 (lines_out ar cfg link_to_full futures)))"

text \<open>The running total shown as \<^verbatim>\<open>OK\<close> in the progress line: \<^verbatim>\<open>len(available)\<close>.\<close>

definition ok_total ::
  "arith \<Rightarrow> config \<Rightarrow> (string \<rightharpoonup> string) \<Rightarrow> (string \<times> (string \<times> bool \<times> metrics) future) list
     \<Rightarrow> nat" where
  "ok_total ar cfg link_to_full futures =
     length (available (collect_results ar cfg link_to_full futures collected0))"

section \<open>speedtest_hysteria\<close>

text \<open>The arguments of \<^verbatim>\<open>speed_test_hysteria_key\<close> after the candidate line.\<close>

record speed_params =
  timeout :: real
  metric :: string
  requests_count :: int
  test_url :: string
  mode :: string
  download_timeout :: real
  download_url_small :: string
  download_url_medium :: string

text \<open>
  The loop \<^verbatim>\<open>for chunk in r.iter_content(chunk_size=8192)\<close>: a chunk is its length
  and the time since \<^verbatim>\<open>start_time\<close> at the test that follows it.
\<close>

fun download_loop :: "real \<Rightarrow> (nat \<times> real) list \<Rightarrow> nat \<Rightarrow> nat" where
  "download_loop timeout_sec [] downloaded = downloaded"
| "download_loop timeout_sec ((len_chunk, since_start) # rest) downloaded =
     (let downloaded1 = (if len_chunk \<noteq> 0 then downloaded + len_chunk else downloaded)
      in if since_start > timeout_sec then downloaded1
         else download_loop timeout_sec rest downloaded1)"

text \<open>
  The literal \<^verbatim>\<open>0.3\<close> of \<^verbatim>\<open>_test_download_speed\<close>: the double nearest to three
  tenths, \<open>5404319552844595 / 2 ^ 54\<close>.
\<close>

definition anti_noise_floor :: real where
  "anti_noise_floor = 5404319552844595 / 18014398509481984"

text \<open>
  \<^verbatim>\<open>_test_download_speed\<close>. The score is
  \<^verbatim>\<open>round((downloaded * 8) / (elapsed * 1_000_000), 2)\<close> in the arithmetic of the
  runtime; \<^verbatim>\<open>downloaded * 8\<close> is a product of integers.
\<close>

definition test_download_speed ::
  "env \<Rightarrow> string \<Rightarrow> real \<Rightarrow> world \<Rightarrow> real option \<times> world" where
  "test_download_speed e url timeout_sec w =
     (case download_result e of
        RequestException \<Rightarrow> (None, emit (Download url) w)
      | Response status_code chunks elapsed \<Rightarrow>
          if status_code \<noteq> 200 then (None, emit (Download url) w)
          else (let downloaded = download_loop timeout_sec chunks 0
                in if elapsed < anti_noise_floor then (None, emit (Download url) w)
                   else (Some (round2 (runtime e)
                                 (float_div (runtime e) (real (downloaded * 8))
                                    (float_mul (runtime e) elapsed 1000000))),
                         emit (Download url) w)))"

text \<open>The loop \<^verbatim>\<open>for _ in range(requests_count)\<close> with its deadline test.\<close>

fun latency_loop ::
  "env \<Rightarrow> string \<Rightarrow> nat list \<Rightarrow> real list \<Rightarrow> nat \<Rightarrow> world \<Rightarrow> real list \<times> nat \<times> world" where
  "latency_loop e url [] rts n w = (rts, n, w)"
| "latency_loop e url (i # rest) rts n w =
     (if deadline_reached e i then (rts, n, w)
      else (let r = make_request e n;
                w1 = emit (MakeRequest url) w
            in if response r \<and> \<not> error r \<and> valid r
               then latency_loop e url rest
                      (rts @ [float_mul (runtime e) (elapsed_time r) 1000]) (Suc n) w1
               else latency_loop e url rest rts (Suc n) w1))"

definition speed_score ::
  "env \<Rightarrow> speed_params \<Rightarrow> string \<Rightarrow> real list \<Rightarrow> world \<Rightarrow> (string \<times> real) option \<times> world" where
  "speed_score e sp proxy_line rts w =
     (let avg_latency_ms = float_div (runtime e) (float_sum (runtime e) rts) (real (length rts))
      in if mode sp = ''quick'' \<and> download_url_small sp \<noteq> [] then
           (case test_download_speed e (download_url_small sp) (min 10 (download_timeout sp)) w of
              (Some speed_mbps, w1) \<Rightarrow> (Some (proxy_line, speed_mbps), w1)
            | (None, w1) \<Rightarrow> (None, w1))
         else if mode sp = ''full'' \<and> download_url_medium sp \<noteq> [] then
           (case test_download_speed e (download_url_medium sp) (download_timeout sp) w of
              (Some speed_mbps, w1) \<Rightarrow> (Some (proxy_line, speed_mbps), w1)
            | (None, w1) \<Rightarrow> (None, w1))
         else if mode sp = ''latency''
                 \<or> \<not> (download_url_small sp \<noteq> [] \<or> download_url_medium sp \<noteq> []) then
           (if metric sp = ''throughput''
            then (Some (proxy_line,
                    if avg_latency_ms > 0 then float_div (runtime e) 100000 avg_latency_ms else 0), w)
            else (Some (proxy_line, avg_latency_ms), w))
         else (Some (proxy_line, avg_latency_ms), w))"

text \<open>The body of the \<^verbatim>\<open>try\<close> statement of \<^verbatim>\<open>speed_test_hysteria_key\<close>.\<close>

definition speed_body ::
  "config \<Rightarrow> env \<Rightarrow> speed_params \<Rightarrow> string \<Rightarrow> nat \<Rightarrow> world
     \<Rightarrow> ((exn + (string \<times> real) option) \<times> world) option" where
  "speed_body cfg e sp proxy_line port w =
     (case startup_wait cfg e 0 0 w of
        None \<Rightarrow> None
      | Some (Inl x, w1) \<Rightarrow> Some (Inl x, w1)
      | Some (Inr exited, w1) \<Rightarrow>
          if exited then Some (Inr None, return_port port w1)
          else (case wait_for_port e port w1 of
                  (ready, w2) \<Rightarrow>
                    if \<not> ready then Some (Inr None, w2)
                    else (case latency_loop e (test_url sp) [0 ..< nat (requests_count sp)] [] 0 w2 of
                            (rts, n, w3) \<Rightarrow>
                              if rts = [] then Some (Inr None, w3)
                              else (case speed_score e sp proxy_line rts w3 of
                                      (res, w4) \<Rightarrow> Some (Inr res, w4)))))"

definition speed_test_hysteria_key ::
  "config \<Rightarrow> env \<Rightarrow> speed_params \<Rightarrow> string \<Rightarrow> world
     \<Rightarrow> ((exn + (string \<times> real) option) \<times> world) option" where
  "speed_test_hysteria_key cfg e sp proxy_line w =
     (if is_hysteria e proxy_line then
        (case take_port w of
           (None, w1) \<Rightarrow> Some (Inr None, w1)
         | (Some port, w1) \<Rightarrow>
             (case mkstemp_file e w1 of
                (config_path, w2) \<Rightarrow>
                  (case write_config e config_path w2 of
                     (False, w3) \<Rightarrow> Some (Inr None, return_port port w3)
                   | (True, w3) \<Rightarrow>
                       (case run_hysteria e config_path w3 of
                          (OtherOSError, w4) \<Rightarrow> Some (Inl OSError, w4)
                        | (FileNotFoundError, w4) \<Rightarrow>
                            Some (Inr None, unlink config_path (return_port port w4))
                        | (Started, w4) \<Rightarrow>
                            (case speed_body cfg e sp proxy_line port w4 of
                               None \<Rightarrow> None
                             | Some (res, w5) \<Rightarrow>
                                 Some (res, finally_block port config_path w5))))))
      else Some (Inr None, w))"



section \<open>Order of teardown in a trace\<close>

text \<open>
  \<open>kill_before_return killed evs\<close>: in the events \<open>evs\<close> no port is returned before
  \<^verbatim>\<open>kill_hysteria\<close> has completed (\<open>killed\<close> says whether it has already).
\<close>

fun kill_before_return :: "bool \<Rightarrow> event list \<Rightarrow> bool" where
  "kill_before_return killed [] = True"
| "kill_before_return killed (KillHysteria # evs) = kill_before_return True evs"
| "kill_before_return killed (ReturnPort p # evs) = (killed \<and> kill_before_return killed evs)"
| "kill_before_return killed (ev # evs) = kill_before_return killed evs"

section \<open>Concrete inputs\<close>

text \<open>
  Every number of the concrete inputs is a dyadic fraction with a short mantissa,
  and so is every sum, product and quotient computed from them below; the one
  value that is rounded to two decimals is a whole number. On such values the
  operations of IEEE doubles are exact, so there the runtime's arithmetic is the
  arithmetic of the reals, and \<^verbatim>\<open>round(x, 2)\<close> is the nearest multiple of one
  hundredth (a tie going to the even one). \<open>exact_arith\<close> stands for the runtime
  on these inputs only.
\<close>

definition py_round2 :: "real \<Rightarrow> real" where
  "py_round2 x =
     (let y = x * 100; f = \<lfloor>y\<rfloor>; d = y - of_int f
      in (if d < 1 / 2 then of_int f
          else if d > 1 / 2 then of_int (f + 1)
          else if even f then of_int f else of_int (f + 1)) / 100)"

definition exact_arith :: arith where
  "exact_arith =
     \<lparr>float_add = (\<lambda>a b. a + b), float_mul = (\<lambda>a b. a * b), float_div = (\<lambda>a b. a / b),
      float_sum = sum_list, round2 = py_round2\<rparr>"

definition example_config :: config where
  "example_config =
     \<lparr>STRONG_STYLE_TEST = True, REQUIRE_HTTPS = True, STRICT_MODE = True,
      STRICT_MODE_REQUIRE_ALL = True, STRONG_ATTEMPTS = 3, STRONG_MAX_RESPONSE_TIME = 5,
      MAX_RESPONSE_TIME = 10, MIN_SUCCESSFUL_REQUESTS = 1, MIN_SUCCESSFUL_URLS = 1,
      REQUESTS_PER_URL = 1, REQUEST_DELAY = 0.125, STABILITY_CHECKS = 1,
      STABILITY_CHECK_DELAY = 1, TEST_URLS = [''http://example.test/generate_204''],
      TEST_URLS_HTTPS = [], CLIENT_TEST_HTTPS = ''https://example.test/generate_204'',
      MAX_LATENCY_MS = 2000, HYSTERIA_STARTUP_WAIT = 1, HYSTERIA_STARTUP_POLL = 0.5,
      HYSTERIA_PORT_WAIT = 20\<rparr>"

definition example_link :: string where
  "example_link = ''hysteria2://secret@198.51.100.7:443''"

definition good_probe :: "real \<Rightarrow> probe" where
  "good_probe t = \<lparr>response = True, elapsed_time = t, error = False, valid = True\<rparr>"

definition transport_error :: probe where
  "transport_error = \<lparr>response = False, elapsed_time = 12, error = True, valid = False\<rparr>"

text \<open>
  A task whose client starts, stays up and opens its port; the probes take one
  second, then a second and a half, and every later one ends in a transport error;
  a download of two chunks takes a quarter of a second.
\<close>

definition example_env :: env where
  "example_env =
     \<lparr>parse_proxy_url =
        (\<lambda>l. if l = example_link then Some [(''protocol'', ''hysteria2'')] else None),
      mkstemp = ''/tmp/hysteria_4f2a.yaml'', write_ok = True, popen = Started,
      poll_exited = (\<lambda>k. False), port_ready = True,
      make_request = (\<lambda>k. if k = 0 then good_probe 1 else if k = 1 then good_probe 1.5
                           else transport_error),
      deadline_reached = (\<lambda>k. False),
      download_result = Response 200 [(8192, 0.125), (8192, 0.25)] 0.25,
      runtime = exact_arith\<rparr>"


definition example_world :: world where
  "example_world = \<lparr>free_ports = [20000, 20001], files = {}, trace = []\<rparr>"

definition example_speed_params :: speed_params where
  "example_speed_params =
     \<lparr>timeout = 10, metric = ''latency'', requests_count = 2,
      test_url = ''https://example.test/generate_204'', mode = ''quick'',
      download_timeout = 30, download_url_small = ''https://example.test/1mb.bin'',
      download_url_medium = ''https://example.test/10mb.bin''\<rparr>"

section \<open>Auxiliary notions for the statements\<close>










text \<open>
  The claims' reading of the latency filter of \<^verbatim>\<open>main\<close>: a future counts when it
  returned \<^verbatim>\<open>ok\<close> and the average response time, in milliseconds as the runtime
  computes it, is at most \<^verbatim>\<open>MAX_LATENCY_MS\<close>; \<open>entry\<close> is the line and latency it
  then contributes.
\<close>

definition included ::
  "arith \<Rightarrow> config \<Rightarrow> string \<times> (string \<times> bool \<times> metrics) future \<Rightarrow> bool" where
  "included ar cfg sf =
     (case snd sf of
        Raised \<Rightarrow> False
      | Returned (link, ok, m) \<Rightarrow> ok \<and> latency_ms_of ar m \<le> MAX_LATENCY_MS cfg)"

definition entry ::
  "arith \<Rightarrow> (string \<rightharpoonup> string) \<Rightarrow> string \<times> (string \<times> bool \<times> metrics) future
     \<Rightarrow> string \<times> real" where
  "entry ar link_to_full sf =
     (case snd sf of
        Raised \<Rightarrow> ([], 0)
      | Returned (link, ok, m) \<Rightarrow>
          (case link_to_full link of Some f \<Rightarrow> f | None \<Rightarrow> link, latency_ms_of ar m))"

section \<open>Shared lemmas\<close>










text \<open>The definitions that evaluate a task on a concrete input.\<close>

lemmas task_defs =
  check_hysteria_key_def speed_test_hysteria_key_def is_hysteria_def take_port_def
  mkstemp_file_def write_config_def run_hysteria_def check_body_def speed_body_def
  startup_wait.simps wait_for_port_def return_port_def finally_block_def unlink_def
  kill_hysteria_def emit_def

lemmas example_defs =
  example_env_def example_world_def example_config_def exact_arith_def









text \<open>The batch loop keeps the futures that pass the latency filter, in order.\<close>

lemma collect_available:
  "available (collect_results ar cfg l2f futures c) =
     available c @ map (entry ar l2f) (filter (included ar cfg) futures)"
  by (induction ar cfg l2f futures c rule: collect_results.induct)
     (simp_all add: included_def entry_def Let_def)

lemma included_entry:
  assumes "sf \<in> set futures" "included ar cfg sf"
  shows "\<exists>submitted link m. (submitted, Returned (link, True, m)) \<in> set futures
           \<and> fst (entry ar l2f sf) = (case l2f link of Some f \<Rightarrow> f | None \<Rightarrow> link)
           \<and> latency_ms_of ar m \<le> MAX_LATENCY_MS cfg"
proof -
  obtain submitted r where sf: "sf = (submitted, r)" by (cases sf)
  from assms(2) obtain link m where r: "r = Returned (link, True, m)"
    and le: "latency_ms_of ar m \<le> MAX_LATENCY_MS cfg"
    unfolding sf included_def by (auto split: future.splits)
  show ?thesis
    using assms(1) le unfolding sf r by (auto simp: entry_def)
qed

lemma lines_out_origin:
  assumes "line \<in> set (lines_out ar cfg l2f futures)"
  shows "\<exists>submitted link m. (submitted, Returned (link, True, m)) \<in> set futures
           \<and> line = (case l2f link of Some f \<Rightarrow> f | None \<Rightarrow> link)
           \<and> latency_ms_of ar m \<le> MAX_LATENCY_MS cfg"
proof -
  from assms obtain sf where "sf \<in> set futures" "included ar cfg sf"
    "line = fst (entry ar l2f sf)"
    by (auto simp: lines_out_def collect_available collected0_def)
  then show ?thesis using included_entry[of sf futures ar cfg l2f] by auto
qed

section \<open>Claims\<close>

text \<open>
  C1. The claim: on every exit path the client is stopped (\<^verbatim>\<open>kill_hysteria\<close> has
  completed) before the port goes back to the pool. The theorem runs
  \<^verbatim>\<open>check_hysteria_key\<close> on a candidate whose client stays up during the startup
  wait and never opens its port: \<^verbatim>\<open>_wait_for_port\<close> fails, \<^verbatim>\<open>return_port\<close> is called
  at once, and \<^verbatim>\<open>kill_hysteria\<close> runs only afterwards, in the \<^verbatim>\<open>finally\<close> block. The
  log of that run does not satisfy \<open>kill_before_return\<close>.
\<close>

theorem port_returned_before_client_killed:
  "check_hysteria_key example_config (example_env\<lparr>port_ready := False\<rparr>) example_link
     example_world =
   Some (Inr (example_link, False, metrics0),
     \<lparr>free_ports = [20001, 20000], files = {},
      trace = [TakePort (Some 20000), Mkstemp ''/tmp/hysteria_4f2a.yaml'',
         WriteConfig ''/tmp/hysteria_4f2a.yaml'',
         RunHysteria ''/tmp/hysteria_4f2a.yaml'', Poll, Sleep 0.5, Poll,
         Sleep 0.5, WaitForPort 20000, ReturnPort 20000, KillHysteria,
         Unlink ''/tmp/hysteria_4f2a.yaml'', ReturnPort 20000]\<rparr>)
   \<and> \<not> kill_before_return False
        [TakePort (Some 20000), Mkstemp ''/tmp/hysteria_4f2a.yaml'',
         WriteConfig ''/tmp/hysteria_4f2a.yaml'',
         RunHysteria ''/tmp/hysteria_4f2a.yaml'', Poll, Sleep 0.5, Poll,
         Sleep 0.5, WaitForPort 20000, ReturnPort 20000, KillHysteria,
         Unlink ''/tmp/hysteria_4f2a.yaml'', ReturnPort 20000]"
  by (simp add: task_defs example_defs)

text \<open>
  On the same candidate \<^verbatim>\<open>speed_test_hysteria_key\<close> returns without the early
  \<^verbatim>\<open>return_port\<close>, so its only return of the port follows \<^verbatim>\<open>kill_hysteria\<close>.
\<close>

lemma speed_test_kills_before_return:
  "speed_test_hysteria_key example_config (example_env\<lparr>port_ready := False\<rparr>)
     example_speed_params example_link example_world =
   Some (Inr None,
     \<lparr>free_ports = [20001, 20000], files = {},
      trace = [TakePort (Some 20000), Mkstemp ''/tmp/hysteria_4f2a.yaml'',
         WriteConfig ''/tmp/hysteria_4f2a.yaml'',
         RunHysteria ''/tmp/hysteria_4f2a.yaml'', Poll, Sleep 0.5, Poll,
         Sleep 0.5, WaitForPort 20000, KillHysteria,
         Unlink ''/tmp/hysteria_4f2a.yaml'', ReturnPort 20000]\<rparr>)
   \<and> kill_before_return False
        [TakePort (Some 20000), Mkstemp ''/tmp/hysteria_4f2a.yaml'',
         WriteConfig ''/tmp/hysteria_4f2a.yaml'',
         RunHysteria ''/tmp/hysteria_4f2a.yaml'', Poll, Sleep 0.5, Poll,
         Sleep 0.5, WaitForPort 20000, KillHysteria,
         Unlink ''/tmp/hysteria_4f2a.yaml'', ReturnPort 20000]"
  by (simp add: task_defs example_defs)

text \<open>
  C2. The claim: in the stability protocol a candidate fails whenever a round
  fails, also with one round, and a round fails when \<^verbatim>\<open>REQUIRE_HTTPS\<close> is set and no
  probe URL is tagged https. The theorem runs \<^verbatim>\<open>check_hysteria_key\<close> with one round,
  \<^verbatim>\<open>REQUIRE_HTTPS\<close> set and a single http URL whose probe succeeds: the round is
  recorded as failed (\<^verbatim>\<open>stability_results = [False]\<close>) and the candidate is returned
  with \<^verbatim>\<open>ok = True\<close>.
\<close>

theorem single_round_without_https_passes:
  "STABILITY_CHECKS (example_config\<lparr>STRONG_STYLE_TEST := False\<rparr>) = 1
   \<and> REQUIRE_HTTPS (example_config\<lparr>STRONG_STYLE_TEST := False\<rparr>)
   \<and> all_urls (example_config\<lparr>STRONG_STYLE_TEST := False\<rparr>)
        = [(''http://example.test/generate_204'', ''http'')]
   \<and> rounds_loop (example_config\<lparr>STRONG_STYLE_TEST := False\<rparr>)
          (example_env\<lparr>make_request := (\<lambda>k. good_probe 1)\<rparr>) [0 ..< 1]
          metrics0 [] None 0 example_world =
       (Inr (\<lparr>response_times = [1], successful_urls = 0, failed_urls = 0,
              total_requests = 1, successful_requests = 1\<rparr>, [False], Some 1, 1),
        \<lparr>free_ports = [20000, 20001], files = {},
         trace = [MakeRequest ''http://example.test/generate_204'']\<rparr>)
   \<and> check_hysteria_key (example_config\<lparr>STRONG_STYLE_TEST := False\<rparr>)
        (example_env\<lparr>make_request := (\<lambda>k. good_probe 1)\<rparr>) example_link example_world =
       Some (Inr (example_link, True,
         \<lparr>response_times = [1], successful_urls = 1, failed_urls = 0,
          total_requests = 1, successful_requests = 1\<rparr>),
         \<lparr>free_ports = [20001, 20000], files = {},
          trace = [TakePort (Some 20000), Mkstemp ''/tmp/hysteria_4f2a.yaml'',
            WriteConfig ''/tmp/hysteria_4f2a.yaml'',
            RunHysteria ''/tmp/hysteria_4f2a.yaml'', Poll, Sleep 0.5, Poll,
            Sleep 0.5, WaitForPort 20000,
            MakeRequest ''http://example.test/generate_204'', KillHysteria,
            Unlink ''/tmp/hysteria_4f2a.yaml'', ReturnPort 20000]\<rparr>)"
  by (simp add: task_defs example_defs stability_test_def all_urls_def round_criterion_def
      good_probe_def metrics0_def)

text \<open>With two rounds the same configuration and answers fail the candidate.\<close>

lemma two_rounds_without_https_fail:
  "check_hysteria_key (example_config\<lparr>STRONG_STYLE_TEST := False, STABILITY_CHECKS := 2\<rparr>)
        (example_env\<lparr>make_request := (\<lambda>k. good_probe 1)\<rparr>) example_link example_world =
       Some (Inr (example_link, False,
         \<lparr>response_times = [1, 1], successful_urls = 0, failed_urls = 0,
          total_requests = 2, successful_requests = 2\<rparr>),
         \<lparr>free_ports = [20001, 20000], files = {},
          trace = [TakePort (Some 20000), Mkstemp ''/tmp/hysteria_4f2a.yaml'',
            WriteConfig ''/tmp/hysteria_4f2a.yaml'',
            RunHysteria ''/tmp/hysteria_4f2a.yaml'', Poll, Sleep 0.5, Poll,
            Sleep 0.5, WaitForPort 20000,
            MakeRequest ''http://example.test/generate_204'', Sleep 1,
            MakeRequest ''http://example.test/generate_204'', KillHysteria,
            Unlink ''/tmp/hysteria_4f2a.yaml'', ReturnPort 20000]\<rparr>)"
  by (simp add: task_defs example_defs stability_test_def all_urls_def round_criterion_def
      good_probe_def metrics0_def upt_rec)





text \<open>
  C5. The claim: on every termination path of a task that took a port, the port
  is returned and the transient configuration file is deleted. The theorem runs
  \<^verbatim>\<open>check_hysteria_key\<close> and \<^verbatim>\<open>speed_test_hysteria_key\<close> on a task whose write of the
  configuration raises: the port is returned, and the file \<^verbatim>\<open>mkstemp\<close> created is
  still there when the task has returned, in a world that had no file before.
\<close>

theorem failed_write_leaves_config_file:
  "check_hysteria_key example_config (example_env\<lparr>write_ok := False\<rparr>) example_link
     example_world =
   Some (Inr (example_link, False, metrics0),
     \<lparr>free_ports = [20001, 20000], files = {''/tmp/hysteria_4f2a.yaml''},
      trace = [TakePort (Some 20000), Mkstemp ''/tmp/hysteria_4f2a.yaml'',
         WriteConfig ''/tmp/hysteria_4f2a.yaml'', ReturnPort 20000]\<rparr>)
   \<and> speed_test_hysteria_key example_config (example_env\<lparr>write_ok := False\<rparr>)
     example_speed_params example_link example_world =
   Some (Inr None,
     \<lparr>free_ports = [20001, 20000], files = {''/tmp/hysteria_4f2a.yaml''},
      trace = [TakePort (Some 20000), Mkstemp ''/tmp/hysteria_4f2a.yaml'',
         WriteConfig ''/tmp/hysteria_4f2a.yaml'', ReturnPort 20000]\<rparr>)
   \<and> files example_world = {}"
  by (simp add: task_defs example_defs)

text \<open>
  When \<^verbatim>\<open>Popen\<close> raises an error other than \<^verbatim>\<open>FileNotFoundError\<close>, the exception
  leaves \<^verbatim>\<open>check_hysteria_key\<close> before its \<^verbatim>\<open>try\<close> statement: the port stays out of
  the pool and the file stays. When the binary is missing, the port is returned
  and the file deleted.
\<close>

lemma spawn_error_leaks_port_and_file:
  "check_hysteria_key example_config (example_env\<lparr>popen := OtherOSError\<rparr>) example_link
     example_world =
   Some (Inl OSError,
     \<lparr>free_ports = [20001], files = {''/tmp/hysteria_4f2a.yaml''},
      trace = [TakePort (Some 20000), Mkstemp ''/tmp/hysteria_4f2a.yaml'',
         WriteConfig ''/tmp/hysteria_4f2a.yaml'',
         RunHysteria ''/tmp/hysteria_4f2a.yaml'']\<rparr>)"
  by (simp add: task_defs example_defs)

lemma missing_binary_releases_port_and_file:
  "check_hysteria_key example_config (example_env\<lparr>popen := FileNotFoundError\<rparr>) example_link
     example_world =
   Some (Inr (example_link, False, metrics0),
     \<lparr>free_ports = [20001, 20000], files = {},
      trace = [TakePort (Some 20000), Mkstemp ''/tmp/hysteria_4f2a.yaml'',
         WriteConfig ''/tmp/hysteria_4f2a.yaml'',
         RunHysteria ''/tmp/hysteria_4f2a.yaml'', ReturnPort 20000,
         Unlink ''/tmp/hysteria_4f2a.yaml'']\<rparr>)"
  by (simp add: task_defs example_defs)

text \<open>
  C6. When \<^verbatim>\<open>take_port\<close> returns \<^verbatim>\<open>None\<close>, \<^verbatim>\<open>check_hysteria_key\<close> returns
  \<^verbatim>\<open>(link, False, metrics)\<close> as a value (no exception), and all it has done is the
  one call of \<^verbatim>\<open>take_port\<close>: no second allocation, no configuration file, no
  client process.
\<close>

theorem exhausted_pool_fails_candidate:
  assumes "is_hysteria e link" and "fst (take_port w) = None"
  shows "check_hysteria_key cfg e link w =
           Some (Inr (link, False, metrics0), w\<lparr>trace := trace w @ [TakePort None]\<rparr>)
         \<and> map_option (\<lambda>r. future_of (fst r)) (check_hysteria_key cfg e link w) =
           Some (Returned (link, False, metrics0))"
proof -
  have "free_ports w = []"
    using assms(2) by (simp add: take_port_def split: list.splits)
  then show ?thesis
    using assms(1) by (simp add: check_hysteria_key_def take_port_def emit_def future_of_def)
qed

theorem exhausted_pool_fails_candidate_witness:
  "is_hysteria example_env example_link
   \<and> fst (take_port (example_world\<lparr>free_ports := []\<rparr>)) = None
   \<and> check_hysteria_key example_config example_env example_link
        (example_world\<lparr>free_ports := []\<rparr>) =
       Some (Inr (example_link, False, metrics0),
             \<lparr>free_ports = [], files = {}, trace = [TakePort None]\<rparr>)"
proof -
  have h1: "is_hysteria example_env example_link"
    by (simp add: is_hysteria_def example_env_def)
  have h2: "fst (take_port (example_world\<lparr>free_ports := []\<rparr>)) = None"
    by (simp add: take_port_def)
  show ?thesis
    using h1 h2 exhausted_pool_fails_candidate [OF h1 h2, of example_config]
    by (simp add: example_world_def)
qed


text \<open>
  With a negative poll interval the first sleep of the startup wait raises
  \<^verbatim>\<open>ValueError\<close>, which leaves \<^verbatim>\<open>check_hysteria_key\<close> through the \<^verbatim>\<open>finally\<close> block.
\<close>

lemma negative_poll_interval_raises:
  "check_hysteria_key (example_config\<lparr>HYSTERIA_STARTUP_POLL := - 0.5\<rparr>) example_env
     example_link example_world =
   Some (Inl ValueError,
     \<lparr>free_ports = [20001, 20000], files = {},
      trace = [TakePort (Some 20000), Mkstemp ''/tmp/hysteria_4f2a.yaml'',
         WriteConfig ''/tmp/hysteria_4f2a.yaml'',
         RunHysteria ''/tmp/hysteria_4f2a.yaml'', Poll, KillHysteria,
         Unlink ''/tmp/hysteria_4f2a.yaml'', ReturnPort 20000]\<rparr>)"
  by (simp add: task_defs example_defs)





text \<open>
  C9. The running total of \<^verbatim>\<open>OK\<close> candidates counts exactly the futures that
  returned \<^verbatim>\<open>ok = True\<close> with an average response time, in milliseconds as the
  runtime computes it, of at most \<^verbatim>\<open>MAX_LATENCY_MS\<close>, and every line of the result
  file and of the top-100 file comes from such a future: a passing candidate
  that is slower is in neither file.
\<close>

theorem slow_passing_candidate_left_out:
  "ok_total ar cfg l2f futures = length (filter (included ar cfg) futures)
   \<and> (\<forall>line. (\<exists>ls. (output_file ar cfg l2f futures = Some ls
                     \<or> top100_file ar cfg l2f futures = Some ls) \<and> line \<in> set ls)
        \<longrightarrow> (\<exists>submitted link m. (submitted, Returned (link, True, m)) \<in> set futures
               \<and> line = (case l2f link of Some f \<Rightarrow> f | None \<Rightarrow> link)
               \<and> latency_ms_of ar m \<le> MAX_LATENCY_MS cfg))"
proof -
  have a: "ok_total ar cfg l2f futures = length (filter (included ar cfg) futures)"
    by (simp add: ok_total_def collect_available collected0_def)
  have b: "\<exists>submitted link m. (submitted, Returned (link, True, m)) \<in> set futures
               \<and> line = (case l2f link of Some f \<Rightarrow> f | None \<Rightarrow> link)
               \<and> latency_ms_of ar m \<le> MAX_LATENCY_MS cfg"
    if "\<exists>ls. (output_file ar cfg l2f futures = Some ls
                     \<or> top100_file ar cfg l2f futures = Some ls) \<and> line \<in> set ls" for line
  proof -
    from that have "line \<in> set (lines_out ar cfg l2f futures)"
      by (auto simp: output_file_def top100_file_def split: if_splits dest: in_set_takeD)
    then show ?thesis by (rule lines_out_origin)
  qed
  show ?thesis using a b by blast
qed

theorem slow_passing_candidate_left_out_witness:
  "latency_ms_of exact_arith (metrics0\<lparr>response_times := [1, 1.5]\<rparr>) = 1250
   \<and> latency_ms_of exact_arith (metrics0\<lparr>response_times := [2.5]\<rparr>) = 2500
   \<and> MAX_LATENCY_MS example_config = 2000
   \<and> ok_total exact_arith example_config Map.empty
        [(''hysteria2://a@198.51.100.7:443'',
            Returned (''hysteria2://a@198.51.100.7:443'', True,
                      metrics0\<lparr>response_times := [1, 1.5]\<rparr>)),
         (''hysteria2://b@198.51.100.8:443'',
            Returned (''hysteria2://b@198.51.100.8:443'', True,
                      metrics0\<lparr>response_times := [2.5]\<rparr>))] = 1
   \<and> output_file exact_arith example_config Map.empty
        [(''hysteria2://a@198.51.100.7:443'',
            Returned (''hysteria2://a@198.51.100.7:443'', True,
                      metrics0\<lparr>response_times := [1, 1.5]\<rparr>)),
         (''hysteria2://b@198.51.100.8:443'',
            Returned (''hysteria2://b@198.51.100.8:443'', True,
                      metrics0\<lparr>response_times := [2.5]\<rparr>))]
       = Some [''hysteria2://a@198.51.100.7:443'']
   \<and> top100_file exact_arith example_config Map.empty
        [(''hysteria2://a@198.51.100.7:443'',
            Returned (''hysteria2://a@198.51.100.7:443'', True,
                      metrics0\<lparr>response_times := [1, 1.5]\<rparr>)),
         (''hysteria2://b@198.51.100.8:443'',
            Returned (''hysteria2://b@198.51.100.8:443'', True,
                      metrics0\<lparr>response_times := [2.5]\<rparr>))]
       = Some [''hysteria2://a@198.51.100.7:443'']"
proof -
  let ?a = "''hysteria2://a@198.51.100.7:443''"
  let ?b = "''hysteria2://b@198.51.100.8:443''"
  let ?fast = "metrics0\<lparr>response_times := [1, 1.5]\<rparr>"
  let ?slow = "metrics0\<lparr>response_times := [2.5]\<rparr>"
  let ?fs = "[(?a, Returned (?a, True, ?fast)), (?b, Returned (?b, True, ?slow))]"
  have l1: "latency_ms_of exact_arith ?fast = 1250"
    by (simp add: latency_ms_of_def exact_arith_def)
  have l2: "latency_ms_of exact_arith ?slow = 2500"
    by (simp add: latency_ms_of_def exact_arith_def)
  have mx: "MAX_LATENCY_MS example_config = 2000" by (simp add: example_config_def)
  have inc: "filter (included exact_arith example_config) ?fs = [(?a, Returned (?a, True, ?fast))]"
    by (simp add: included_def latency_ms_of_def exact_arith_def mx)
  have lo: "lines_out exact_arith example_config Map.empty ?fs = [?a]"
    by (simp add: lines_out_def collected0_def latency_ms_of_def exact_arith_def mx)
  have o: "output_file exact_arith example_config Map.empty ?fs = Some [?a]"
    unfolding output_file_def lo by simp
  have t: "top100_file exact_arith example_config Map.empty ?fs = Some [?a]"
    unfolding top100_file_def lo by simp
  from slow_passing_candidate_left_out [of exact_arith example_config Map.empty ?fs]
  have "ok_total exact_arith example_config Map.empty ?fs = 1" unfolding inc by simp
  then show ?thesis using l1 l2 mx o t by simp
qed

text \<open>
  C10. For a link that \<^verbatim>\<open>parse_proxy_url\<close> does not parse (a falsy result) or
  whose protocol is neither \<^verbatim>\<open>hysteria\<close> nor \<^verbatim>\<open>hysteria2\<close>,
  \<^verbatim>\<open>check_hysteria_key\<close> returns \<^verbatim>\<open>(link, False, metrics)\<close> with all-zero, empty
  metrics, and the world (pool, files, log of calls) is the one it started from: no
  port is taken, no file written, no process started.
\<close>

theorem unparsed_link_touches_nothing:
  assumes "parse_proxy_url e link = None \<or> parse_proxy_url e link = Some []
           \<or> (\<exists>parsed. parse_proxy_url e link = Some parsed
                \<and> map_of parsed ''protocol'' \<noteq> Some ''hysteria''
                \<and> map_of parsed ''protocol'' \<noteq> Some ''hysteria2'')"
  shows "check_hysteria_key cfg e link w =
           Some (Inr (link, False,
             \<lparr>response_times = [], successful_urls = 0, failed_urls = 0,
              total_requests = 0, successful_requests = 0\<rparr>), w)"
proof -
  have "\<not> is_hysteria e link"
    using assms by (auto simp: is_hysteria_def split: option.splits)
  then show ?thesis by (simp add: check_hysteria_key_def metrics0_def)
qed

theorem unparsed_link_touches_nothing_witness:
  "(parse_proxy_url example_env ''vless://id@198.51.100.7:443'' = None
    \<or> parse_proxy_url example_env ''vless://id@198.51.100.7:443'' = Some []
    \<or> (\<exists>parsed. parse_proxy_url example_env ''vless://id@198.51.100.7:443'' = Some parsed
                \<and> map_of parsed ''protocol'' \<noteq> Some ''hysteria''
                \<and> map_of parsed ''protocol'' \<noteq> Some ''hysteria2''))
   \<and> check_hysteria_key example_config example_env ''vless://id@198.51.100.7:443'' example_world =
       Some (Inr (''vless://id@198.51.100.7:443'', False,
             \<lparr>response_times = [], successful_urls = 0, failed_urls = 0,
              total_requests = 0, successful_requests = 0\<rparr>),
             \<lparr>free_ports = [20000, 20001], files = {}, trace = []\<rparr>)"
proof -
  have h: "parse_proxy_url example_env ''vless://id@198.51.100.7:443'' = None"
    by (simp add: example_env_def example_link_def)
  show ?thesis
    using h unparsed_link_touches_nothing [of example_env "''vless://id@198.51.100.7:443''"
        example_config example_world]
    by (simp add: example_world_def)
qed

end
